theory Spec2Isabelle
  imports Main "HOL-Library.Word"
begin

section \<open>Go values used by pkg/kafka/queue_receiver.go\<close>

text \<open>
  A payload is a Go \<open>[]byte\<close>; topic names, keys, broker addresses and error messages are
  strings. A Go \<open>error\<close> result is \<open>goerror option\<close>, \<open>None\<close> being \<open>nil\<close>. A panic is
  kept apart from an ordinary error: it is the \<open>Inl\<close> side of a sum, or the outcome
  \<open>Panicked\<close> of a run.
\<close>

type_synonym bytes = "8 word list"
type_synonym goerror = string

datatype panic = TypeAssertion | MakeChanSize | NilFuncCall

text \<open>
  The callback receives \<open>msg interface{}\<close> and asserts \<open>msg.([]byte)\<close>; any other dynamic
  type makes the assertion panic.
\<close>

datatype msg = MBytes bytes | MOther

subsection \<open>Integers\<close>

text \<open>
  Go's \<open>int\<close> is taken 64 bits wide, the widest the language has. Values are HOL integers
  and \<open>wrap64\<close> is the two's complement wrap-around of an arithmetic result. It is written
  out where a small input overflows (the default backoff, the conversion to a
  \<open>time.Duration\<close>). The retry bound and the retry counter are left unwrapped: the counter
  stays below the bound, and \<open>maxRetries + 1\<close> overflows only at \<open>2^63 - 1\<close>, a channel
  size no runtime allocates (lemmas \<open>wrap64_size\<close> and \<open>wrap64_counter\<close> below).
\<close>

definition wrap64 :: "int \<Rightarrow> int" where
  "wrap64 x = (x + 2 ^ 63) mod 2 ^ 64 - 2 ^ 63"

subsection \<open>Channels of bool\<close>

text \<open>
  A channel has a capacity, the buffered values, and the values of the senders parked on
  it, oldest first. A send on a channel whose buffer has room appends to the buffer and
  returns; otherwise the sender parks. A receive takes the oldest buffered value and moves
  the oldest parked sender's value into the buffer; on an empty buffer it takes a parked
  sender's value directly (the unbuffered hand-over); with nothing to take it blocks
  (\<open>None\<close>).
\<close>

record chan =
  chan_cap :: nat
  chan_buf :: "bool list"
  chan_sendq :: "bool list"

type_synonym store = "chan list"

definition make_chan :: "store \<Rightarrow> int \<Rightarrow> panic + (nat \<times> store)" where
  "make_chan st sz =
     (if sz < 0 then Inl MakeChanSize
      else Inr (length st, st @ [\<lparr>chan_cap = nat sz, chan_buf = [], chan_sendq = []\<rparr>]))"

definition send1 :: "chan \<Rightarrow> bool \<Rightarrow> chan" where
  "send1 c v =
     (if length (chan_buf c) < chan_cap c then c\<lparr>chan_buf := chan_buf c @ [v]\<rparr>
      else c\<lparr>chan_sendq := chan_sendq c @ [v]\<rparr>)"

definition recv1 :: "chan \<Rightarrow> (bool \<times> chan) option" where
  "recv1 c =
     (case chan_buf c of
        v # vs \<Rightarrow>
          (case chan_sendq c of
             [] \<Rightarrow> Some (v, c\<lparr>chan_buf := vs\<rparr>)
           | w # ws \<Rightarrow> Some (v, c\<lparr>chan_buf := vs @ [w], chan_sendq := ws\<rparr>))
      | [] \<Rightarrow>
          (case chan_sendq c of
             [] \<Rightarrow> None
           | w # ws \<Rightarrow> Some (w, c\<lparr>chan_sendq := ws\<rparr>)))"

text \<open>
  Channels live in a store and are named by their index. Closures only hold names that
  \<open>make_chan\<close> returned; an operation on a name outside the store leaves the store as it is
  (send) or blocks (receive), as on a nil channel.
\<close>

definition chan_send :: "store \<Rightarrow> nat \<Rightarrow> bool \<Rightarrow> store" where
  "chan_send st c v = (if c < length st then st[c := send1 (st ! c) v] else st)"

definition chan_recv :: "store \<Rightarrow> nat \<Rightarrow> (bool \<times> store) option" where
  "chan_recv st c =
     (if c < length st then
        (case recv1 (st ! c) of
           None \<Rightarrow> None
         | Some (v, ch) \<Rightarrow> Some (v, st[c := ch]))
      else None)"

subsection \<open>Work items\<close>

text \<open>
  The two function literals of the callback, \<open>func() error { result <- true; return nil }\<close>
  and the same with \<open>false\<close>, are closures over the variable \<open>result\<close>. A closure value is
  the channel it captured and the constant it sends; calling it sends and returns \<open>nil\<close>.
\<close>

datatype closure = SendResult nat bool

fun call_closure :: "closure \<Rightarrow> store \<Rightarrow> goerror option \<times> store" where
  "call_closure (SendResult result b) st = (None, chan_send st result b)"

text \<open>
  Modelled from the spec: the declaration of \<open>transform.DataBlock\<close> is outside this file.
  Its fields are the three the composite literal of the callback sets, the payload and the
  acknowledge and reject callables of the spec's Work Item.
\<close>

record DataBlock =
  Data :: bytes
  Ack :: closure
  Nack :: closure

subsection \<open>What a callback run does and meets\<close>

datatype level = LPrint | LDebug | LInfo | LWarn | LError

text \<open>
  The events of one run of the callback, in program order: a log call (level and format
  string), a send of a work item on the outbound channel, a value received from
  \<open>result\<close>, a timer wait (the \<open>time.Duration\<close>, in nanoseconds), \<open>goka.NewEmitter\<close> with
  its brokers, topic and error result, \<open>EmitSync\<close> on the emitter of a topic with key, value
  and error result, and the deferred \<open>Finish\<close> of that emitter.
\<close>

datatype event =
    Log level string
  | Deliver nat DataBlock
  | Recv bool
  | Sleep int
  | NewEmitter "string list" string "goerror option"
  | EmitSync string string bytes "goerror option"
  | Finish string

text \<open>
  The surroundings of a run. The consumer takes every work item sent on the outbound
  channel; \<open>consumer E i db\<close> lists the callbacks of the item \<open>db\<close> it calls after the
  \<open>i\<close>-th send (counted from 0) and before the callback's next receive. The two goka
  operations answer with their error result.
\<close>

datatype call = CallAck | CallNack

record env =
  consumer :: "nat \<Rightarrow> DataBlock \<Rightarrow> call list"
  newEmitter :: "string list \<Rightarrow> string \<Rightarrow> goerror option"
  emitSync :: "string \<Rightarrow> string \<Rightarrow> bytes \<Rightarrow> goerror option"

fun invoke :: "DataBlock \<Rightarrow> store \<Rightarrow> call \<Rightarrow> store" where
  "invoke db st CallAck = snd (call_closure (Ack db) st)"
| "invoke db st CallNack = snd (call_closure (Nack db) st)"

definition react :: "env \<Rightarrow> nat \<Rightarrow> DataBlock \<Rightarrow> store \<Rightarrow> store" where
  "react E i db st = foldl (invoke db) st (consumer E i db)"

text \<open>
  A run ends by returning, by panicking, or parked for ever on the receive from \<open>result\<close>
  when no signal is there and none will come.
\<close>

datatype outcome = Returned | Blocked | Panicked panic

record run =
  r_trace :: "event list"
  r_outcome :: outcome
  r_store :: store

definition prepend :: "event list \<Rightarrow> run \<Rightarrow> run" where
  "prepend es r = r\<lparr>r_trace := es @ r_trace r\<rparr>"

section \<open>The message processor\<close>

text \<open>
  The branch \<open>retries >= maxRetries\<close> of the loop: create an emitter on the error topic,
  publish the payload with the empty key, log, return. \<open>defer pub.Finish()\<close> is registered
  only once the emitter exists and runs when the callback returns.
\<close>

definition deadLetter :: "env \<Rightarrow> string list \<Rightarrow> string \<Rightarrow> bytes \<Rightarrow> event list" where
  "deadLetter E brks errTopic data =
     Log LWarn ''Too much retries, not possible to process the message (copy at %v)'' #
     (case newEmitter E brks errTopic of
        Some err \<Rightarrow>
          [NewEmitter brks errTopic (Some err),
           Log LError ''Error creating publisher to track error message: %v'']
      | None \<Rightarrow>
          NewEmitter brks errTopic None #
          (case emitSync E errTopic [] data of
             Some err \<Rightarrow>
               [EmitSync errTopic [] data (Some err),
                Log LError ''Error publishing error message (potentially lost): %v'',
                Finish errTopic]
           | None \<Rightarrow>
               [EmitSync errTopic [] data None,
                Log LInfo ''Error message reported correctly to %v'',
                Finish errTopic]))"

text \<open>
  The \<open>for { select { case res := <-result: ... } }\<close> loop, entered after a send of \<open>db\<close>.
  \<open>n\<close> counts the sends made so far, \<open>retries\<close> is the loop's counter.
\<close>

function waitLoop ::
  "env \<Rightarrow> nat \<Rightarrow> string list \<Rightarrow> string \<Rightarrow> int \<Rightarrow> (int \<Rightarrow> int) \<Rightarrow> bytes \<Rightarrow> DataBlock \<Rightarrow> nat \<Rightarrow>
   nat \<Rightarrow> int \<Rightarrow> store \<Rightarrow> run" where
  "waitLoop E output brks errTopic maxRetries retryExpirationCalc data db result n retries st =
     (case chan_recv st result of
        None \<Rightarrow> \<lparr>r_trace = [], r_outcome = Blocked, r_store = st\<rparr>
      | Some (res, st1) \<Rightarrow>
          if res then
            \<lparr>r_trace = [Recv True, Log LPrint ''Success on message process''],
             r_outcome = Returned, r_store = st1\<rparr>
          else if retries \<ge> maxRetries then
            \<lparr>r_trace = Recv False # deadLetter E brks errTopic data,
             r_outcome = Returned, r_store = st1\<rparr>
          else
            prepend
              [Recv False,
               Log LDebug ''Waiting on retry %v for %v'',
               Sleep (wrap64 (retryExpirationCalc retries * 1000000)),
               Log LPrint ''Retry %v'',
               Deliver output db]
              (waitLoop E output brks errTopic maxRetries retryExpirationCalc data db result
                 (Suc n) (retries + 1) (react E n db st1)))"
  by pat_completeness auto
termination
  by (relation "measure (\<lambda>(E, output, brks, errTopic, maxRetries, calc, data, db, result, n,
        retries, st). nat (maxRetries - retries))") auto

declare waitLoop.simps [simp del]

text \<open>
  \<open>kafkaMsgProcessor\<close> returns the callback; here the callback's two arguments follow the
  six of the constructor (the \<open>goka.Context\<close> is not used by the body and is left out, the
  logger is the trace), then the surroundings and the store.
\<close>

definition kafkaMsgProcessor ::
  "nat \<Rightarrow> string list \<Rightarrow> string \<Rightarrow> int \<Rightarrow> (int \<Rightarrow> int) \<Rightarrow> env \<Rightarrow> msg \<Rightarrow> store \<Rightarrow> run" where
  "kafkaMsgProcessor output brks errTopic maxRetries retryExpirationCalc E m st =
     (case m of
        MOther \<Rightarrow>
          \<lparr>r_trace = [Log LPrint ''Message received''],
           r_outcome = Panicked TypeAssertion, r_store = st\<rparr>
      | MBytes data \<Rightarrow>
          (case make_chan st (maxRetries + 1) of
             Inl p \<Rightarrow>
               \<lparr>r_trace = [Log LPrint ''Message received''],
                r_outcome = Panicked p, r_store = st\<rparr>
           | Inr (result, st1) \<Rightarrow>
               (let db = \<lparr>Data = data, Ack = SendResult result True,
                          Nack = SendResult result False\<rparr>
                in prepend [Log LPrint ''Message received'', Deliver output db]
                     (waitLoop E output brks errTopic maxRetries retryExpirationCalc data db
                        result 1 0 (react E 0 db st1)))))"

section \<open>The default backoff\<close>

text \<open>
  \<open>int(math.Pow(2.0, float64(retry)))\<close>. Powers of two are float64 values and
  \<open>math.Pow\<close> computes them without rounding. For a negative \<open>retry\<close> the power lies in
  the interval from 0 to 1/2 and the conversion truncates it to 0; for \<open>retry\<close> up to 62
  the conversion is exact; from 63 on the float is outside the range of \<open>int\<close>, where the
  language leaves the result of the conversion to the implementation: \<open>impl\<close> gives it.
\<close>

definition pow2_int :: "(int \<Rightarrow> int) \<Rightarrow> int \<Rightarrow> int" where
  "pow2_int impl retry =
     (if retry < 0 then 0 else if retry \<le> 62 then 2 ^ nat retry else impl retry)"

text \<open>The function literal \<open>Connect\<close> passes: \<open>1000 * int(math.Pow(2.0, float64(retry)))\<close>.\<close>

definition defaultRetryFuncTime :: "(int \<Rightarrow> int) \<Rightarrow> int \<Rightarrow> int" where
  "defaultRetryFuncTime impl retry = wrap64 (1000 * pow2_int impl retry)"

section \<open>The receiver\<close>

text \<open>
  \<open>shutdown\<close> is a \<open>func()\<close> field: \<open>None\<close> is the nil function value, \<open>Some c\<close> the cancel
  function of the context \<open>c\<close>.
\<close>

record KafkaReceiver =
  brokers :: "string list"
  group :: string
  topic :: string
  errorTopic :: string
  shutdown :: "nat option"

definition NewKafkaReceiver :: "string list \<Rightarrow> string \<Rightarrow> string \<Rightarrow> KafkaReceiver" where
  "NewKafkaReceiver brks grp tpc =
     \<lparr>brokers = brks, group = grp, topic = tpc, errorTopic = tpc @ ''.errors'',
      shutdown = None\<rparr>"

text \<open>
  The group graph \<open>startConsumer\<close> defines: the group, the input stream and its callback.
  The world outside the receiver: the log, the contexts made by \<open>context.WithCancel\<close>
  (whether each is cancelled), and the run loops started by \<open>go processor.Run(ctx)\<close>, each
  with its context and graph.
\<close>

record graph =
  g_group :: string
  g_input :: string
  g_callback :: "env \<Rightarrow> msg \<Rightarrow> store \<Rightarrow> run"

record world =
  w_log :: "(level \<times> string) list"
  w_cancelled :: "bool list"
  w_running :: "(nat \<times> graph) list"

definition logw :: "level \<Rightarrow> string \<Rightarrow> world \<Rightarrow> world" where
  "logw l s w = w\<lparr>w_log := w_log w @ [(l, s)]\<rparr>"

text \<open>
  \<open>newProcessor\<close> stands for \<open>goka.NewProcessor\<close>: its error result for the given brokers.
  The receiver is passed and returned, the method having a pointer receiver.
\<close>

definition startConsumer ::
  "(string list \<Rightarrow> goerror option) \<Rightarrow> KafkaReceiver \<Rightarrow> nat \<Rightarrow> int \<Rightarrow> (int \<Rightarrow> int) \<Rightarrow> world \<Rightarrow>
   goerror option \<times> KafkaReceiver \<times> world" where
  "startConsumer newProcessor q msgs maxRetries retryExpirationCalc w =
     (let gr = \<lparr>g_group = group q, g_input = topic q,
                g_callback = kafkaMsgProcessor msgs (brokers q) (errorTopic q) maxRetries
                               retryExpirationCalc\<rparr>;
          w1 = logw LPrint ''Starting goka processor'' w
      in case newProcessor (brokers q) of
           Some err \<Rightarrow> (Some err, q, w1)
         | None \<Rightarrow>
             (let ctx = length (w_cancelled w1)
              in (None, q\<lparr>shutdown := Some ctx\<rparr>,
                  w1\<lparr>w_cancelled := w_cancelled w1 @ [False],
                     w_running := w_running w1 @ [(ctx, gr)]\<rparr>)))"

text \<open>\<open>q.shutdown()\<close> on the nil function value panics; otherwise it cancels the context.\<close>

definition Shutdown :: "KafkaReceiver \<Rightarrow> world \<Rightarrow> (panic + goerror option) \<times> world" where
  "Shutdown q w =
     (let w1 = logw LPrint ''Shutting down goka processors'' w
      in case shutdown q of
           None \<Rightarrow> (Inl NilFuncCall, w1)
         | Some ctx \<Rightarrow> (Inr None, w1\<lparr>w_cancelled := (w_cancelled w1)[ctx := True]\<rparr>))"

text \<open>
  On an error of \<open>startConsumer\<close> the method logs, defers \<open>q.Shutdown(logger)\<close> and returns
  the error: the deferred call runs once the result is set, its own result is dropped,
  and a panic in it replaces the return.
\<close>

definition ConnectCustomRetry ::
  "(string list \<Rightarrow> goerror option) \<Rightarrow> KafkaReceiver \<Rightarrow> nat \<Rightarrow> int \<Rightarrow> (int \<Rightarrow> int) \<Rightarrow> world \<Rightarrow>
   (panic + goerror option) \<times> KafkaReceiver \<times> world" where
  "ConnectCustomRetry newProcessor q msgs maxRetries retryFuncTime w =
     (case startConsumer newProcessor q msgs maxRetries retryFuncTime w of
        (Some err, q1, w1) \<Rightarrow>
          (case Shutdown q1 (logw LError ''error and shutting down: %v'' w1) of
             (Inl p, w2) \<Rightarrow> (Inl p, q1, w2)
           | (Inr _, w2) \<Rightarrow> (Inr (Some err), q1, w2))
      | (None, q1, w1) \<Rightarrow> (Inr None, q1, w1))"

definition Connect ::
  "(string list \<Rightarrow> goerror option) \<Rightarrow> (int \<Rightarrow> int) \<Rightarrow> KafkaReceiver \<Rightarrow> nat \<Rightarrow> world \<Rightarrow>
   (panic + goerror option) \<times> KafkaReceiver \<times> world" where
  "Connect newProcessor impl q msgs w =
     ConnectCustomRetry newProcessor q msgs 3 (defaultRetryFuncTime impl) w"

section \<open>Observations on a trace\<close>

fun deliveries :: "event list \<Rightarrow> DataBlock list" where
  "deliveries [] = []"
| "deliveries (Deliver out db # es) = db # deliveries es"
| "deliveries (e # es) = deliveries es"

text \<open>
  The publish attempts (every \<open>EmitSync\<close> call: topic, key, value) and the records that
  reached a topic (the calls that returned no error).
\<close>

fun emits :: "event list \<Rightarrow> (string \<times> string \<times> bytes) list" where
  "emits [] = []"
| "emits (EmitSync t k v r # es) = (t, k, v) # emits es"
| "emits (e # es) = emits es"

fun published :: "event list \<Rightarrow> (string \<times> string \<times> bytes) list" where
  "published [] = []"
| "published (EmitSync t k v None # es) = (t, k, v) # published es"
| "published (e # es) = published es"

fun sleeps :: "event list \<Rightarrow> int list" where
  "sleeps [] = []"
| "sleeps (Sleep d # es) = d # sleeps es"
| "sleeps (e # es) = sleeps es"

text \<open>The events of the dead-letter emitter, the three that only the exhausted branch makes.\<close>

fun emitter_events :: "event list \<Rightarrow> event list" where
  "emitter_events [] = []"
| "emitter_events (NewEmitter b t r # es) = NewEmitter b t r # emitter_events es"
| "emitter_events (EmitSync t k v r # es) = EmitSync t k v r # emitter_events es"
| "emitter_events (Finish t # es) = Finish t # emitter_events es"
| "emitter_events (e # es) = emitter_events es"

section \<open>Sequences of channel operations\<close>




section \<open>Concrete surroundings\<close>

text \<open>
  A backoff without delay; the out-of-range conversion as amd64 gives it; consumers and
  emitters that always answer the same way.
\<close>

definition zero_delay :: "int \<Rightarrow> int" where
  "zero_delay retry = 0"

definition amd64_conv :: "int \<Rightarrow> int" where
  "amd64_conv retry = - (2 ^ 63)"


definition publish_fails_env :: env where
  "publish_fails_env = \<lparr>consumer = (\<lambda>i d. [CallNack]), newEmitter = (\<lambda>b t. None),
               emitSync = (\<lambda>t k v. Some ''broker not available'')\<rparr>"

definition emitter_fails_env :: env where
  "emitter_fails_env = \<lparr>consumer = (\<lambda>i d. [CallNack]),
               newEmitter = (\<lambda>b t. Some ''no brokers''),
               emitSync = (\<lambda>t k v. None)\<rparr>"



definition unreachable :: "string list \<Rightarrow> goerror option" where
  "unreachable brks = Some ''kafka: client has run out of available brokers''"

definition reachable :: "string list \<Rightarrow> goerror option" where
  "reachable brks = None"

definition world0 :: world where
  "world0 = \<lparr>w_log = [], w_cancelled = [], w_running = []\<rparr>"

section \<open>Helper lemmas\<close>

lemmas run_defs = kafkaMsgProcessor_def make_chan_def react_def chan_send_def send1_def
  chan_recv_def recv1_def prepend_def deadLetter_def wrap64_def Let_def waitLoop.simps

subsection \<open>Observations distribute over append\<close>

lemma deliveries_append [simp]: "deliveries (xs @ ys) = deliveries xs @ deliveries ys"
  by (induction xs rule: deliveries.induct) simp_all

lemma emits_append [simp]: "emits (xs @ ys) = emits xs @ emits ys"
  by (induction xs rule: emits.induct) simp_all

lemma published_append [simp]: "published (xs @ ys) = published xs @ published ys"
  by (induction xs rule: published.induct) simp_all

lemma sleeps_append [simp]: "sleeps (xs @ ys) = sleeps xs @ sleeps ys"
  by (induction xs rule: sleeps.induct) simp_all

lemma emitter_events_append [simp]:
  "emitter_events (xs @ ys) = emitter_events xs @ emitter_events ys"
  by (induction xs rule: emitter_events.induct) simp_all

lemma emits_none: "emitter_events es = [] \<Longrightarrow> emits es = []"
  by (induction es rule: emitter_events.induct) simp_all

lemma published_none: "emits es = [] \<Longrightarrow> published es = []"
  by (induction es rule: published.induct) simp_all

lemma emitter_events_set:
  "emitter_events es = [] \<Longrightarrow>
     NewEmitter b t r \<notin> set es \<and> EmitSync t k v r' \<notin> set es \<and> Finish t \<notin> set es"
  by (induction es rule: emitter_events.induct) auto

subsection \<open>Channel operations on the store\<close>

lemma chan_send_length [simp]: "length (chan_send st c v) = length st"
  by (simp add: chan_send_def)


lemma invoke_length [simp]: "length (invoke db st c) = length st"
  by (cases c; cases "Ack db"; cases "Nack db") simp_all

lemma react_length [simp]: "length (react E i db st) = length st"
proof -
  have "length (foldl (invoke db) s cs) = length s" for s cs
    by (induction cs arbitrary: s) simp_all
  then show ?thesis by (simp add: react_def)
qed


subsection \<open>Every run of the loop\<close>

lemma deadLetter_deliveries [simp]: "deliveries (deadLetter E brks errTopic data) = []"
  by (simp add: deadLetter_def split: option.splits)



lemma waitLoop_shape:
  "emitter_events (r_trace (waitLoop E out brks errTopic maxRetries calc data db result n
       retries st)) = []
   \<or> (r_outcome (waitLoop E out brks errTopic maxRetries calc data db result n retries st)
        = Returned
      \<and> (\<exists>pre. r_trace (waitLoop E out brks errTopic maxRetries calc data db result n
                  retries st) = pre @ Recv False # deadLetter E brks errTopic data
               \<and> emitter_events pre = []))"
proof (induction E out brks errTopic maxRetries calc data db result n retries st
       rule: waitLoop.induct)
  case (1 E out brks errTopic maxRetries calc data db result n retries st)
  let ?r = "waitLoop E out brks errTopic maxRetries calc data db result n retries st"
  show ?case
  proof (cases "chan_recv st result")
    case None
    then have "r_trace ?r = []" by (subst waitLoop.simps) simp
    then show ?thesis by simp
  next
    case (Some p)
    obtain res st1 where p: "p = (res, st1)" by (cases p)
    show ?thesis
    proof (cases res)
      case True
      with Some p have "r_trace ?r = [Recv True, Log LPrint ''Success on message process'']"
        by (subst waitLoop.simps) simp
      then show ?thesis by simp
    next
      case False
      show ?thesis
      proof (cases "maxRetries \<le> retries")
        case True
        with Some p False have "r_trace ?r = [] @ Recv False # deadLetter E brks errTopic data"
          and "r_outcome ?r = Returned"
          by (subst waitLoop.simps, simp)+
        then show ?thesis
          by (intro disjI2 conjI exI [of _ "[]"]) simp_all
      next
        case exh: False
        let ?s = "waitLoop E out brks errTopic maxRetries calc data db result (Suc n)
                    (retries + 1) (react E n db st1)"
        let ?round = "[Recv False, Log LDebug ''Waiting on retry %v for %v'',
               Sleep (wrap64 (calc retries * 1000000)), Log LPrint ''Retry %v'',
               Deliver out db]"
        have tr: "r_trace ?r = ?round @ r_trace ?s" and oc: "r_outcome ?r = r_outcome ?s"
          using Some p False exh by (subst waitLoop.simps, simp add: prepend_def)+
        have ih: "emitter_events (r_trace ?s) = []
           \<or> (r_outcome ?s = Returned
              \<and> (\<exists>pre. r_trace ?s = pre @ Recv False # deadLetter E brks errTopic data
                       \<and> emitter_events pre = []))"
          using Some p False exh "1.IH" [of p res st1] by simp
        then show ?thesis
        proof
          assume "emitter_events (r_trace ?s) = []"
          with tr show ?thesis by simp
        next
          assume "r_outcome ?s = Returned
              \<and> (\<exists>pre. r_trace ?s = pre @ Recv False # deadLetter E brks errTopic data
                       \<and> emitter_events pre = [])"
          then obtain pre where pre: "r_trace ?s = pre @ Recv False # deadLetter E brks errTopic data"
            "emitter_events pre = []" and ret: "r_outcome ?s = Returned" by blast
          have a: "r_trace ?r = (?round @ pre) @ Recv False # deadLetter E brks errTopic data"
            using tr pre by simp
          have b: "emitter_events (?round @ pre) = []" using pre by simp
          have c: "r_outcome ?r = Returned" using oc ret by simp
          show ?thesis
            by (intro disjI2 conjI exI [of _ "?round @ pre"]) (rule c, rule a, rule b)
        qed
      qed
    qed
  qed
qed

subsection \<open>The dead-letter branch\<close>



lemma processor_shape:
  "emitter_events (r_trace (kafkaMsgProcessor out brks errTopic maxRetries calc E m st)) = []
   \<or> (\<exists>data pre. m = MBytes data
        \<and> r_outcome (kafkaMsgProcessor out brks errTopic maxRetries calc E m st) = Returned
        \<and> r_trace (kafkaMsgProcessor out brks errTopic maxRetries calc E m st)
            = pre @ Recv False # deadLetter E brks errTopic data
        \<and> emitter_events pre = [])"
proof (cases m)
  case MOther
  then show ?thesis by (simp add: kafkaMsgProcessor_def)
next
  case (MBytes data)
  show ?thesis
  proof (cases "maxRetries + 1 < 0")
    case True
    with MBytes show ?thesis by (simp add: kafkaMsgProcessor_def make_chan_def)
  next
    case False
    define db where "db = \<lparr>Data = data, Ack = SendResult (length st) True,
                          Nack = SendResult (length st) False\<rparr>"
    define st1 where "st1 = st @ [\<lparr>chan_cap = nat (maxRetries + 1), chan_buf = [],
                                  chan_sendq = []\<rparr>]"
    let ?w = "waitLoop E out brks errTopic maxRetries calc data db (length st) 1 0
                (react E 0 db st1)"
    let ?r = "kafkaMsgProcessor out brks errTopic maxRetries calc E m st"
    have r: "?r = prepend [Log LPrint ''Message received'', Deliver out db] ?w"
      using MBytes False by (simp add: kafkaMsgProcessor_def make_chan_def db_def st1_def Let_def)
    have tr: "r_trace ?r = [Log LPrint ''Message received'', Deliver out db] @ r_trace ?w"
      and oc: "r_outcome ?r = r_outcome ?w"
      by (simp_all add: r prepend_def)
    from waitLoop_shape [of E out brks errTopic maxRetries calc data db "length st" 1 0
        "react E 0 db st1"]
    show ?thesis
    proof
      assume "emitter_events (r_trace ?w) = []"
      with tr show ?thesis by simp
    next
      assume "r_outcome ?w = Returned \<and>
        (\<exists>pre. r_trace ?w = pre @ Recv False # deadLetter E brks errTopic data \<and>
               emitter_events pre = [])"
      then obtain pre where pre: "r_trace ?w = pre @ Recv False # deadLetter E brks errTopic data"
        "emitter_events pre = []" and ret: "r_outcome ?w = Returned" by blast
      let ?pre = "[Log LPrint ''Message received'', Deliver out db] @ pre"
      have a: "r_trace ?r = ?pre @ Recv False # deadLetter E brks errTopic data"
        using tr pre by simp
      have b: "emitter_events ?pre = []" using pre by simp
      have c: "r_outcome ?r = Returned" using oc ret by simp
      show ?thesis
        by (intro disjI2 exI [of _ data] exI [of _ ?pre] conjI) (rule MBytes, rule c, rule a, rule b)
    qed
  qed
qed

subsection \<open>The default backoff below the overflow\<close>

lemma wrap64_id: "- (2 ^ 63) \<le> x \<Longrightarrow> x < 2 ^ 63 \<Longrightarrow> wrap64 x = x"
  by (simp add: wrap64_def)

text \<open>
  Below the largest \<open>int\<close> the channel size \<open>maxRetries + 1\<close> does not wrap, and neither
  does the increment of a counter that is below the bound.
\<close>

lemma wrap64_size: "0 \<le> k \<Longrightarrow> k < 2 ^ 63 - 1 \<Longrightarrow> wrap64 (k + 1) = k + 1"
  by (rule wrap64_id) simp_all

lemma wrap64_counter:
  "0 \<le> retries \<Longrightarrow> retries < maxRetries \<Longrightarrow> maxRetries < 2 ^ 63 \<Longrightarrow>
     wrap64 (retries + 1) = retries + 1"
  by (rule wrap64_id) simp_all

lemma pow2_le_53: 
  assumes "0 \<le> n" "n \<le> 53" shows "(2::int) ^ nat n \<le> 2 ^ 53"
  using assms by (intro power_increasing) auto

lemma default_in_range:
  assumes "0 \<le> n" "n \<le> 53"
  shows "defaultRetryFuncTime impl n = 1000 * 2 ^ nat n"
proof -
  have le: "(2::int) ^ nat n \<le> 2 ^ 53" using assms by (rule pow2_le_53)
  have pos: "(0::int) < 2 ^ nat n" by simp
  have "pow2_int impl n = 2 ^ nat n" using assms by (simp add: pow2_int_def)
  moreover have "wrap64 (1000 * 2 ^ nat n) = 1000 * 2 ^ nat n"
  proof -
    define p :: int where "p = 2 ^ nat n"
    have "0 < p" "p \<le> 9007199254740992" using le pos by (simp_all add: p_def)
    then have "wrap64 (1000 * p) = 1000 * p" by (intro wrap64_id) simp_all
    then show ?thesis by (simp add: p_def)
  qed
  ultimately show ?thesis by (simp add: defaultRetryFuncTime_def)
qed

subsection \<open>A consumer with one answer\<close>




subsection \<open>What every run of the callback sends and publishes\<close>






subsection \<open>Capacities\<close>


lemma chan_send_caps [simp]: "map chan_cap (chan_send st c v) = map chan_cap st"
  by (simp add: chan_send_def send1_def map_update list_update_same_conv)



lemma invoke_caps [simp]: "map chan_cap (invoke db st c) = map chan_cap st"
  by (cases c; cases "Ack db"; cases "Nack db") simp_all

lemma react_caps [simp]: "map chan_cap (react E i db st) = map chan_cap st"
proof -
  have "map chan_cap (foldl (invoke db) s cs) = map chan_cap s" for s cs
    by (induction cs arbitrary: s) simp_all
  then show ?thesis by (simp add: react_def)
qed


subsection \<open>The error path after an earlier connect\<close>

lemma connect_error_after_connect:
  assumes "newProcessor (brokers q) = Some err" "shutdown q = Some c"
  shows "fst (ConnectCustomRetry newProcessor q msgs maxRetries calc w) = Inr (Some err)
    \<and> fst (snd (ConnectCustomRetry newProcessor q msgs maxRetries calc w)) = q
    \<and> w_running (snd (snd (ConnectCustomRetry newProcessor q msgs maxRetries calc w)))
        = w_running w
    \<and> w_cancelled (snd (snd (ConnectCustomRetry newProcessor q msgs maxRetries calc w)))
        = (w_cancelled w)[c := True]"
  using assms
  by (simp add: ConnectCustomRetry_def startConsumer_def Shutdown_def logw_def Let_def)

section \<open>The claims\<close>



text \<open>
  C2. On a new receiver, when \<open>goka.NewProcessor\<close> fails, \<open>ConnectCustomRetry\<close> starts no
  run loop and calls \<open>Shutdown\<close>, but the call of the nil \<open>shutdown\<close> panics: the caller
  gets the panic, not the error.
\<close>

theorem connect_error_path_panics:
  "ConnectCustomRetry unreachable (NewKafkaReceiver [''kafka:9092''] ''workers'' ''orders'') 7 3
       zero_delay world0
     = (Inl NilFuncCall,
        NewKafkaReceiver [''kafka:9092''] ''workers'' ''orders'',
        \<lparr>w_log = [(LPrint, ''Starting goka processor''),
                  (LError, ''error and shutting down: %v''),
                  (LPrint, ''Shutting down goka processors'')],
         w_cancelled = [], w_running = []\<rparr>)"
  by (simp add: ConnectCustomRetry_def startConsumer_def Shutdown_def NewKafkaReceiver_def
      unreachable_def world0_def logw_def Let_def)




text \<open>
  C4. When the retries are exhausted and the synchronous publish to the dead-letter topic
  fails, the message is logged and dropped. A run whose trace holds a failed \<open>EmitSync\<close>
  returns; the trace ends with that call, the error log line and the deferred \<open>Finish\<close>,
  so nothing is sent on the outbound channel afterwards; it is the only publish attempt
  of the run; nothing reaches the topic; and the run does not panic.
\<close>

theorem publish_failure_drops_message:
  assumes "EmitSync t k v (Some err)
             \<in> set (r_trace (kafkaMsgProcessor out brks errTopic maxRetries calc E m st))"
  shows "r_outcome (kafkaMsgProcessor out brks errTopic maxRetries calc E m st) = Returned
    \<and> (\<exists>pre. r_trace (kafkaMsgProcessor out brks errTopic maxRetries calc E m st)
               = pre @ [EmitSync t k v (Some err),
                        Log LError ''Error publishing error message (potentially lost): %v'',
                        Finish t]
             \<and> emits pre = [])
    \<and> emits (r_trace (kafkaMsgProcessor out brks errTopic maxRetries calc E m st)) = [(t, k, v)]
    \<and> published (r_trace (kafkaMsgProcessor out brks errTopic maxRetries calc E m st)) = []"
proof -
  let ?r = "kafkaMsgProcessor out brks errTopic maxRetries calc E m st"
  from processor_shape [of out brks errTopic maxRetries calc E m st]
  show ?thesis
  proof
    assume "emitter_events (r_trace ?r) = []"
    with assms show ?thesis using emitter_events_set by blast
  next
    assume "\<exists>data pre. m = MBytes data \<and> r_outcome ?r = Returned
        \<and> r_trace ?r = pre @ Recv False # deadLetter E brks errTopic data
        \<and> emitter_events pre = []"
    then obtain data pre where ret: "r_outcome ?r = Returned"
      and tr: "r_trace ?r = pre @ Recv False # deadLetter E brks errTopic data"
      and pre: "emitter_events pre = []" by blast
    have "EmitSync t k v (Some err) \<notin> set pre" using pre emitter_events_set by blast
    with assms tr have mem: "EmitSync t k v (Some err) \<in> set (deadLetter E brks errTopic data)"
      by simp
    then have ne: "newEmitter E brks errTopic = None"
      and es: "emitSync E errTopic [] data = Some err"
      and eq: "t = errTopic" "k = []" "v = data"
      by (auto simp: deadLetter_def split: option.splits)
    let ?pre = "pre @ [Recv False,
      Log LWarn ''Too much retries, not possible to process the message (copy at %v)'',
      NewEmitter brks errTopic None]"
    have a: "r_trace ?r = ?pre @ [EmitSync t k v (Some err),
                        Log LError ''Error publishing error message (potentially lost): %v'',
                        Finish t]"
      using tr ne es eq by (simp add: deadLetter_def)
    have b0: "emits pre = []" using pre by (rule emits_none)
    have b: "emits ?pre = []" using b0 by simp
    have c: "emits (r_trace ?r) = [(t, k, v)]" using b0 by (simp add: a)
    have d: "published (r_trace ?r) = []" using b0 by (simp add: a published_none)
    show ?thesis
      by (intro conjI exI [of _ ?pre]) (rule ret, rule a, rule b, rule c, rule d)
  qed
qed

theorem publish_failure_drops_message_witness:
  "EmitSync ''orders.errors'' [] [104, 105] (Some ''broker not available'')
     \<in> set (r_trace (kafkaMsgProcessor 7 [''kafka:9092''] ''orders.errors'' 1 zero_delay
                       publish_fails_env (MBytes [104, 105]) []))
   \<and> r_outcome (kafkaMsgProcessor 7 [''kafka:9092''] ''orders.errors'' 1 zero_delay
                  publish_fails_env (MBytes [104, 105]) []) = Returned
   \<and> emits (r_trace (kafkaMsgProcessor 7 [''kafka:9092''] ''orders.errors'' 1 zero_delay
                       publish_fails_env (MBytes [104, 105]) []))
       = [(''orders.errors'', [], [104, 105])]
   \<and> published (r_trace (kafkaMsgProcessor 7 [''kafka:9092''] ''orders.errors'' 1 zero_delay
                           publish_fails_env (MBytes [104, 105]) [])) = []"
proof -
  have h: "EmitSync ''orders.errors'' [] [104, 105] (Some ''broker not available'')
     \<in> set (r_trace (kafkaMsgProcessor 7 [''kafka:9092''] ''orders.errors'' 1 zero_delay
                       publish_fails_env (MBytes [104, 105]) []))"
    by (simp add: run_defs publish_fails_env_def zero_delay_def)
  from publish_failure_drops_message [OF h] h show ?thesis by simp
qed



text \<open>
  C6, as amended. \<open>Connect\<close> passes 3 as the retry bound and the default backoff. For
  every \<open>n\<close> from 0 to 53 the default backoff returns \<open>1000 * 2^n\<close>, and it is strictly
  increasing on that range. (From 54 on the product exceeds a 64-bit \<open>int\<close> and wraps.)
\<close>

theorem default_backoff:
  "Connect newProcessor impl q msgs w =
       ConnectCustomRetry newProcessor q msgs 3 (defaultRetryFuncTime impl) w
   \<and> (\<forall>n. 0 \<le> n \<and> n \<le> 53 \<longrightarrow> defaultRetryFuncTime impl n = 1000 * 2 ^ nat n)
   \<and> (\<forall>m n. 0 \<le> m \<and> m < n \<and> n \<le> 53 \<longrightarrow>
         defaultRetryFuncTime impl m < defaultRetryFuncTime impl n)"
proof (intro conjI allI impI)
  show "Connect newProcessor impl q msgs w =
       ConnectCustomRetry newProcessor q msgs 3 (defaultRetryFuncTime impl) w"
    by (simp add: Connect_def)
next
  fix n :: int assume "0 \<le> n \<and> n \<le> 53"
  then show "defaultRetryFuncTime impl n = 1000 * 2 ^ nat n"
    by (simp add: default_in_range)
next
  fix m n :: int assume h: "0 \<le> m \<and> m < n \<and> n \<le> 53"
  then have "nat m < nat n" by simp
  then have "(2::int) ^ nat m < 2 ^ nat n" by (simp add: power_strict_increasing)
  with h show "defaultRetryFuncTime impl m < defaultRetryFuncTime impl n"
    by (simp add: default_in_range)
qed

theorem default_backoff_witness:
  "(0::int) \<le> 1 \<and> (1::int) < 2 \<and> (2::int) \<le> 53
   \<and> defaultRetryFuncTime amd64_conv 2 = 4000
   \<and> defaultRetryFuncTime amd64_conv 1 < defaultRetryFuncTime amd64_conv 2"
  using default_backoff [of "\<lambda>b. None" amd64_conv "NewKafkaReceiver [] [] []" 0
      "\<lparr>w_log = [], w_cancelled = [], w_running = []\<rparr>"]
  by simp

text \<open>
  C6 as stated fails at \<open>n = 54\<close>: \<open>1000 * 2^54\<close> is beyond \<open>2^63 - 1\<close>, the product wraps
  to a negative number, below the value at 53.
\<close>

theorem default_backoff_counterexample:
  "defaultRetryFuncTime amd64_conv 54 = - 432345564227567616
   \<and> defaultRetryFuncTime amd64_conv 54 \<noteq> 1000 * 2 ^ 54
   \<and> \<not> defaultRetryFuncTime amd64_conv 53 < defaultRetryFuncTime amd64_conv 54"
  by (simp add: defaultRetryFuncTime_def pow2_int_def wrap64_def)





text \<open>
  C9. When the retries are exhausted and \<open>goka.NewEmitter\<close> fails, the callback logs the
  error and returns. A run whose trace holds a failed \<open>NewEmitter\<close> returns; the trace ends
  with that call and the error log line; there is no publish attempt at all, so nothing
  reaches the topic, as when the publish fails.
\<close>

theorem emitter_failure_drops_message:
  assumes "NewEmitter b t (Some err)
             \<in> set (r_trace (kafkaMsgProcessor out brks errTopic maxRetries calc E m st))"
  shows "r_outcome (kafkaMsgProcessor out brks errTopic maxRetries calc E m st) = Returned
    \<and> (\<exists>pre. r_trace (kafkaMsgProcessor out brks errTopic maxRetries calc E m st)
               = pre @ [NewEmitter b t (Some err),
                        Log LError ''Error creating publisher to track error message: %v'']
             \<and> emitter_events pre = [])
    \<and> emits (r_trace (kafkaMsgProcessor out brks errTopic maxRetries calc E m st)) = []
    \<and> published (r_trace (kafkaMsgProcessor out brks errTopic maxRetries calc E m st)) = []"
proof -
  let ?r = "kafkaMsgProcessor out brks errTopic maxRetries calc E m st"
  from processor_shape [of out brks errTopic maxRetries calc E m st]
  show ?thesis
  proof
    assume "emitter_events (r_trace ?r) = []"
    with assms show ?thesis using emitter_events_set by blast
  next
    assume "\<exists>data pre. m = MBytes data \<and> r_outcome ?r = Returned
        \<and> r_trace ?r = pre @ Recv False # deadLetter E brks errTopic data
        \<and> emitter_events pre = []"
    then obtain data pre where ret: "r_outcome ?r = Returned"
      and tr: "r_trace ?r = pre @ Recv False # deadLetter E brks errTopic data"
      and pre: "emitter_events pre = []" by blast
    have "NewEmitter b t (Some err) \<notin> set pre" using pre emitter_events_set by blast
    with assms tr have mem: "NewEmitter b t (Some err) \<in> set (deadLetter E brks errTopic data)"
      by simp
    then have ne: "newEmitter E brks errTopic = Some err"
      and eq: "b = brks" "t = errTopic"
      by (auto simp: deadLetter_def split: option.splits)
    let ?pre = "pre @ [Recv False,
      Log LWarn ''Too much retries, not possible to process the message (copy at %v)'']"
    have a: "r_trace ?r = ?pre @ [NewEmitter b t (Some err),
                        Log LError ''Error creating publisher to track error message: %v'']"
      using tr ne eq by (simp add: deadLetter_def)
    have b: "emitter_events ?pre = []" using pre by simp
    have c: "emits (r_trace ?r) = []" using pre by (simp add: a emits_none)
    have d: "published (r_trace ?r) = []" using c by (rule published_none)
    show ?thesis
      by (intro conjI exI [of _ ?pre]) (rule ret, rule a, rule b, rule c, rule d)
  qed
qed

theorem emitter_failure_drops_message_witness:
  "NewEmitter [''kafka:9092''] ''orders.errors'' (Some ''no brokers'')
     \<in> set (r_trace (kafkaMsgProcessor 7 [''kafka:9092''] ''orders.errors'' 0 zero_delay
                       emitter_fails_env (MBytes [104, 105]) []))
   \<and> r_outcome (kafkaMsgProcessor 7 [''kafka:9092''] ''orders.errors'' 0 zero_delay
                  emitter_fails_env (MBytes [104, 105]) []) = Returned
   \<and> emits (r_trace (kafkaMsgProcessor 7 [''kafka:9092''] ''orders.errors'' 0 zero_delay
                       emitter_fails_env (MBytes [104, 105]) [])) = []
   \<and> published (r_trace (kafkaMsgProcessor 7 [''kafka:9092''] ''orders.errors'' 0 zero_delay
                           emitter_fails_env (MBytes [104, 105]) [])) = []"
proof -
  have h: "NewEmitter [''kafka:9092''] ''orders.errors'' (Some ''no brokers'')
     \<in> set (r_trace (kafkaMsgProcessor 7 [''kafka:9092''] ''orders.errors'' 0 zero_delay
                       emitter_fails_env (MBytes [104, 105]) []))"
    by (simp add: run_defs emitter_fails_env_def zero_delay_def)
  from emitter_failure_drops_message [OF h] h show ?thesis by simp
qed

text \<open>
  C10. A new receiver has the nil \<open>shutdown\<close>; \<open>startConsumer\<close> leaves the receiver as it
  is when \<open>goka.NewProcessor\<close> fails and sets the field when it succeeds. With the nil
  field, \<open>Shutdown\<close> panics, and so does \<open>ConnectCustomRetry\<close> on its error path, through
  the deferred \<open>Shutdown\<close>.
\<close>

theorem shutdown_nil_before_connect:
  "shutdown (NewKafkaReceiver brks grp tpc) = None
   \<and> (newProcessor (brokers q) \<noteq> None \<longrightarrow>
        fst (snd (startConsumer newProcessor q msgs maxRetries calc w)) = q)
   \<and> (newProcessor (brokers q) = None \<longrightarrow>
        shutdown (fst (snd (startConsumer newProcessor q msgs maxRetries calc w)))
          = Some (length (w_cancelled w)))
   \<and> (shutdown q = None \<longrightarrow> fst (Shutdown q w) = Inl NilFuncCall)
   \<and> (shutdown q = None \<and> newProcessor (brokers q) \<noteq> None \<longrightarrow>
        fst (ConnectCustomRetry newProcessor q msgs maxRetries calc w) = Inl NilFuncCall)"
  by (auto simp: NewKafkaReceiver_def startConsumer_def Shutdown_def ConnectCustomRetry_def
      logw_def Let_def split: option.splits)

theorem shutdown_nil_before_connect_witness:
  "shutdown (NewKafkaReceiver [''kafka:9092''] ''workers'' ''orders'') = None
   \<and> unreachable (brokers (NewKafkaReceiver [''kafka:9092''] ''workers'' ''orders'')) \<noteq> None
   \<and> reachable (brokers (NewKafkaReceiver [''kafka:9092''] ''workers'' ''orders'')) = None
   \<and> fst (snd (startConsumer unreachable (NewKafkaReceiver [''kafka:9092''] ''workers'' ''orders'')
                 7 3 zero_delay world0))
       = NewKafkaReceiver [''kafka:9092''] ''workers'' ''orders''
   \<and> shutdown (fst (snd (startConsumer reachable
                 (NewKafkaReceiver [''kafka:9092''] ''workers'' ''orders'') 7 3 zero_delay world0)))
       = Some 0
   \<and> fst (Shutdown (NewKafkaReceiver [''kafka:9092''] ''workers'' ''orders'') world0)
       = Inl NilFuncCall
   \<and> fst (ConnectCustomRetry unreachable (NewKafkaReceiver [''kafka:9092''] ''workers'' ''orders'')
            7 3 zero_delay world0) = Inl NilFuncCall"
proof -
  have s: "shutdown (NewKafkaReceiver [''kafka:9092''] ''workers'' ''orders'') = None"
    by (simp add: NewKafkaReceiver_def)
  have u: "unreachable (brokers (NewKafkaReceiver [''kafka:9092''] ''workers'' ''orders'')) \<noteq> None"
    by (simp add: unreachable_def)
  have r: "reachable (brokers (NewKafkaReceiver [''kafka:9092''] ''workers'' ''orders'')) = None"
    by (simp add: reachable_def)
  from shutdown_nil_before_connect [of "[''kafka:9092'']" "''workers''" "''orders''" unreachable
      "NewKafkaReceiver [''kafka:9092''] ''workers'' ''orders''" 7 3 zero_delay world0]
    shutdown_nil_before_connect [of "[''kafka:9092'']" "''workers''" "''orders''" reachable
      "NewKafkaReceiver [''kafka:9092''] ''workers'' ''orders''" 7 3 zero_delay world0]
    s u r
  show ?thesis by (simp add: world0_def)
qed

end
